theory Spec2Isabelle
  imports Complex_Main "HOL-Library.Word"
begin

section \<open>ECG reader: model manager\<close>

text \<open>
  The program is a single Python module, \<^verbatim>\<open>ecg.py\<close>. It keeps three module-level
  globals (\<^verbatim>\<open>MODEL\<close>, \<^verbatim>\<open>LABEL_TO_ID\<close>, \<^verbatim>\<open>ID_TO_LABEL\<close>), all \<^verbatim>\<open>None\<close> at
  import time, and calls into torch, timm, OpenCV and PIL. The library calls are the
  parameters of the embedding: each library is a record of functions, and every theorem
  holds for all values of these records. A library call that can raise returns a sum,
  \<open>Inl\<close> carrying the exception.
\<close>

subsection \<open>Exceptions\<close>

datatype exn =
    FileNotFoundError string
  | UnpicklingError string
  | RuntimeError string
  | KeyError string
  | TypeError string
  | UnidentifiedImageError string
  | OSError string
  | CvError string

text \<open>
  \<^verbatim>\<open>str(e)\<close>, the message. A \<^verbatim>\<open>KeyError\<close> prints the repr of its key, so it
  carries that repr: \<open>repr_str k\<close> (the key in single quotes) for a string key.
\<close>

definition repr_str :: "string \<Rightarrow> string" where
  "repr_str s = [CHR 0x27] @ s @ [CHR 0x27]"

fun str :: "exn \<Rightarrow> string" where
  "str (FileNotFoundError s) = s"
| "str (UnpicklingError s) = s"
| "str (RuntimeError s) = s"
| "str (KeyError k) = k"
| "str (TypeError s) = s"
| "str (UnidentifiedImageError s) = s"
| "str (OSError s) = s"
| "str (CvError s) = s"

subsection \<open>Checkpoint, model object and process-wide state\<close>

type_synonym tensor = "nat list \<times> real list"

type_synonym state_dict = "(string \<times> tensor) list"

text \<open>
  The checkpoint is the dict that \<^verbatim>\<open>torch.load\<close> returns. The code subscripts it with
  three keys; a key that is absent is \<open>None\<close> here and a \<^verbatim>\<open>KeyError\<close> in
  \<open>load_model\<close>.
\<close>

record checkpoint =
  model_state_dict :: "state_dict option"
  label_to_id :: "(string \<times> nat) list option"
  id_to_label :: "(nat \<times> string) list option"

text \<open>
  The \<^verbatim>\<open>nn.Module\<close> object. \<open>ident\<close> is the identity of the Python object
  (\<^verbatim>\<open>id(MODEL)\<close>); \<open>weights\<close> is \<open>None\<close> for the randomly initialised network that
  \<^verbatim>\<open>timm.create_model(..., pretrained=False)\<close> returns, and the loaded state dict after
  \<^verbatim>\<open>load_state_dict\<close>; \<open>training\<close> is the module's mode flag, cleared by
  \<^verbatim>\<open>eval()\<close>; \<open>on_device\<close> is set by \<^verbatim>\<open>to(DEVICE)\<close>.
\<close>

record model =
  ident :: nat
  weights :: "state_dict option"
  training :: bool
  on_device :: bool

text \<open>
  The module globals, with three ghost fields that make the effects of \<open>load_model\<close>
  observable: the paths handed to \<^verbatim>\<open>torch.load\<close>, the number of model objects
  created so far (the next fresh identity), and the lines printed.
\<close>

record globals =
  MODEL :: "model option"
  LABEL_TO_ID :: "(string \<times> nat) list option"
  ID_TO_LABEL :: "(nat \<times> string) list option"
  disk_reads :: "string list"
  created :: nat
  stdout :: "string list"

text \<open>The state right after the module is imported (lines 22--24).\<close>

definition initial_globals :: globals where
  "initial_globals =
     \<lparr>MODEL = None, LABEL_TO_ID = None, ID_TO_LABEL = None,
      disk_reads = [], created = 0, stdout = []\<rparr>"

subsection \<open>The torch and timm calls\<close>

text \<open>A picture is an array of shape (height, width, 3) and dtype \<^verbatim>\<open>uint8\<close>, as rows of RGB pixels.\<close>

type_synonym pixel = "8 word \<times> 8 word \<times> 8 word"

type_synonym image = "pixel list list"

text \<open>
  \<^item> \<open>torch_load path\<close>: \<^verbatim>\<open>torch.load(path, map_location=DEVICE)\<close>; raises for a
    missing or corrupt file.
  \<^item> \<open>load_state_dict_error sd\<close>: the exception that the strict
    \<^verbatim>\<open>load_state_dict(sd)\<close> of the 4-class Swin network raises for \<open>sd\<close> (missing or
    unexpected keys, size mismatch), \<open>None\<close> when it accepts \<open>sd\<close>.
  \<^item> \<open>transform img\<close>: resize to 384x384, \<^verbatim>\<open>ToTensor\<close>, \<^verbatim>\<open>Normalize\<close>,
    \<^verbatim>\<open>unsqueeze(0).to(DEVICE)\<close>.
  \<^item> \<open>forward m x\<close>: the forward pass \<^verbatim>\<open>m(x)\<close>; the result maps a class index to
    its logit. The network is created with \<^verbatim>\<open>num_classes=4\<close>, so the output tensor
    holds the logits of the indices 0 to 3.
  \<^item> \<open>softmax xs\<close>: \<^verbatim>\<open>torch.softmax(output, dim=1)[0]\<close> on the single row \<open>xs\<close> of
    logits, as the 32-bit floating-point arithmetic of torch computes it.

  A finite float is the real number it denotes, so logits and probabilities are reals
  and their comparisons are exact; which reals \<open>softmax\<close> returns is left to the
  library. Infinite and NaN values are not represented.
\<close>

record torch =
  torch_load :: "string \<Rightarrow> exn + checkpoint"
  load_state_dict_error :: "state_dict \<Rightarrow> exn option"
  transform :: "image \<Rightarrow> tensor"
  forward :: "model \<Rightarrow> tensor \<Rightarrow> exn + (nat \<Rightarrow> real)"
  softmax :: "real list \<Rightarrow> real list"

subsection \<open>load_model (lines 27--45)\<close>

text \<open>The \<^verbatim>\<open>except\<close> branch: print the error; the caller then returns \<^verbatim>\<open>None\<close>.\<close>

definition load_failed :: "exn \<Rightarrow> globals \<Rightarrow> model option \<times> globals" where
  "load_failed e g = (None, g\<lparr>stdout := stdout g @ [''Error loading model: '' @ str e]\<rparr>)"

text \<open>
  Lines 40--42, run with the model \<open>m\<close> that the global already holds: the two label
  maps are read from the checkpoint and assigned one after the other.
\<close>

definition load_labels :: "checkpoint \<Rightarrow> model \<Rightarrow> globals \<Rightarrow> model option \<times> globals" where
  "load_labels ckpt m g =
     (case label_to_id ckpt of
        None \<Rightarrow> load_failed (KeyError (repr_str ''label_to_id'')) g
      | Some l2i \<Rightarrow>
          let g1 = g\<lparr>LABEL_TO_ID := Some l2i\<rparr> in
          (case id_to_label ckpt of
             None \<Rightarrow> load_failed (KeyError (repr_str ''id_to_label'')) g1
           | Some i2l \<Rightarrow> (Some m, g1\<lparr>ID_TO_LABEL := Some i2l\<rparr>)))"

text \<open>
  Lines 36--39: the global \<^verbatim>\<open>MODEL\<close> is assigned the new network first, and the
  weights are loaded into that object afterwards.
\<close>

definition load_weights :: "torch \<Rightarrow> checkpoint \<Rightarrow> globals \<Rightarrow> model option \<times> globals" where
  "load_weights T ckpt g =
     (let m0 = \<lparr>ident = created g, weights = None, training = True, on_device = False\<rparr>;
          g1 = g\<lparr>MODEL := Some m0, created := Suc (created g)\<rparr>
      in case model_state_dict ckpt of
           None \<Rightarrow> load_failed (KeyError (repr_str ''model_state_dict'')) g1
         | Some sd \<Rightarrow>
             (case load_state_dict_error T sd of
                Some e \<Rightarrow> load_failed e g1
              | None \<Rightarrow>
                  let m1 = m0\<lparr>weights := Some sd\<rparr>;
                      m2 = m1\<lparr>on_device := True\<rparr>;
                      m3 = m2\<lparr>training := False\<rparr>
                  in load_labels ckpt m3 (g1\<lparr>MODEL := Some m3\<rparr>)))"

definition load_model :: "torch \<Rightarrow> string \<Rightarrow> globals \<Rightarrow> model option \<times> globals" where
  "load_model T model_path g =
     (case MODEL g of
        Some m \<Rightarrow> (Some m, g)
      | None \<Rightarrow>
          let g1 = g\<lparr>disk_reads := disk_reads g @ [model_path]\<rparr> in
          (case torch_load T model_path of
             Inl e \<Rightarrow> load_failed e g1
           | Inr ckpt \<Rightarrow> load_weights T ckpt g1))"

text \<open>"Not loaded": none of the three globals is set.\<close>

definition not_loaded :: "globals \<Rightarrow> bool" where
  "not_loaded g = (MODEL g = None \<and> LABEL_TO_ID g = None \<and> ID_TO_LABEL g = None)"

section \<open>ECG reader: classification\<close>

text \<open>
  \<^verbatim>\<open>output.argmax().item()\<close>: the index of the first maximal entry. (On an empty tensor
  torch raises; the output of the network has four entries.)
\<close>

fun argmax :: "real list \<Rightarrow> nat" where
  "argmax [] = 0"
| "argmax [x] = 0"
| "argmax (x # y # ys) = (let j = argmax (y # ys) in if x < (y # ys) ! j then Suc j else 0)"

text \<open>
  \<open>analyze_ecg_image\<close> (lines 47--70). \<open>img\<close> is the decoded picture after
  \<^verbatim>\<open>convert('RGB')\<close>. Calling \<^verbatim>\<open>MODEL\<close> while it is \<^verbatim>\<open>None\<close>, and subscripting
  \<^verbatim>\<open>ID_TO_LABEL\<close> while it is \<^verbatim>\<open>None\<close>, raise \<^verbatim>\<open>TypeError\<close>; an index that is
  not a key of \<^verbatim>\<open>ID_TO_LABEL\<close> raises \<^verbatim>\<open>KeyError\<close> (the index is below 4, so its
  repr is one digit).
\<close>

definition analyze_ecg_image :: "torch \<Rightarrow> globals \<Rightarrow> image \<Rightarrow> exn + (string \<times> real \<times> real list)" where
  "analyze_ecg_image T g img =
     (let image_tensor = transform T img in
      case MODEL g of
        None \<Rightarrow> Inl (TypeError (repr_str ''NoneType'' @ '' object is not callable''))
      | Some m \<Rightarrow>
          (case forward T m image_tensor of
             Inl e \<Rightarrow> Inl e
           | Inr out \<Rightarrow>
               let output = map out [0..<4];
                   probabilities = softmax T output;
                   predicted_class_idx = argmax output;
                   confidence_score = probabilities ! predicted_class_idx
               in (case ID_TO_LABEL g of
                     None \<Rightarrow> Inl (TypeError (repr_str ''NoneType'' @ '' object is not subscriptable''))
                   | Some i2l \<Rightarrow>
                       (case map_of i2l predicted_class_idx of
                          None \<Rightarrow> Inl (KeyError [char_of (48 + predicted_class_idx)])
                        | Some predicted_label \<Rightarrow>
                            Inr (predicted_label, confidence_score, probabilities)))))"

section \<open>ECG reader: annotation\<close>

text \<open>
  Images are numpy arrays, which \<^verbatim>\<open>cv2.rectangle\<close> and \<^verbatim>\<open>cv2.line\<close> change in
  place. The heap is the list of the arrays allocated so far, an array's address is its
  position in the list, and a fresh array is appended.
\<close>

type_synonym heap = "image list"

type_synonym gray_image = "8 word list list"

type_synonym contour = "(int \<times> int) list"

type_synonym segment = "int \<times> int \<times> int \<times> int"

datatype cv_flag = COLOR_RGB2GRAY | RETR_EXTERNAL | CHAIN_APPROX_SIMPLE

text \<open>
  The OpenCV calls, with the arguments in the order of the source. \<open>HoughLinesP\<close>
  takes \<open>rho\<close>, \<open>theta\<close>, \<open>threshold\<close>, \<open>minLineLength\<close>, \<open>maxLineGap\<close> and returns
  \<open>None\<close> when it finds no line. \<open>rectangle\<close> and \<open>line\<close> give the pixels of the array
  after the call; the array they draw on is updated in the heap by the caller.
\<close>

record cv2 =
  cvtColor :: "image \<Rightarrow> cv_flag \<Rightarrow> gray_image"
  Canny :: "gray_image \<Rightarrow> real \<Rightarrow> real \<Rightarrow> gray_image"
  findContours :: "gray_image \<Rightarrow> cv_flag \<Rightarrow> cv_flag \<Rightarrow> contour list"
  contourArea :: "contour \<Rightarrow> real"
  boundingRect :: "contour \<Rightarrow> int \<times> int \<times> int \<times> int"
  HoughLinesP :: "gray_image \<Rightarrow> real \<Rightarrow> real \<Rightarrow> int \<Rightarrow> real \<Rightarrow> real \<Rightarrow> segment list option"
  rectangle :: "image \<Rightarrow> int \<times> int \<Rightarrow> int \<times> int \<Rightarrow> pixel \<Rightarrow> int \<Rightarrow> image"
  line :: "image \<Rightarrow> int \<times> int \<Rightarrow> int \<times> int \<Rightarrow> pixel \<Rightarrow> int \<Rightarrow> image"

text \<open>
  \<^verbatim>\<open>cv2.cvtColor(src, code)\<close> asserts that \<open>src\<close> is not empty and raises
  \<^verbatim>\<open>cv2.error\<close> for an array without pixels (height or width 0). On an array with
  pixels, which is 3-channel and 8-bit by its type, neither this call nor the later ones
  raise.
\<close>

definition cv2_cvtColor :: "cv2 \<Rightarrow> image \<Rightarrow> cv_flag \<Rightarrow> exn + gray_image" where
  "cv2_cvtColor cv src code =
     (if concat src = [] then
        Inl (CvError ''(-215:Assertion failed) !_src.empty() in function cvtColor'')
      else Inr (cvtColor cv src code))"

text \<open>\<^verbatim>\<open>img_array.copy()\<close>: a new array with the same pixels.\<close>

definition ndarray_copy :: "heap \<Rightarrow> nat \<Rightarrow> nat \<times> heap" where
  "ndarray_copy hp a = (length hp, hp @ [hp ! a])"

text \<open>
  The loop of lines 80--84 and of lines 102--106: the two differ in the bounds on the
  area and in the colour.
\<close>

fun mark_contours :: "cv2 \<Rightarrow> real \<Rightarrow> real \<Rightarrow> pixel \<Rightarrow> contour list \<Rightarrow> nat \<Rightarrow> heap \<Rightarrow> heap" where
  "mark_contours cv lo hi colour [] marked_img hp = hp"
| "mark_contours cv lo hi colour (contour # contours) marked_img hp =
     (let area = contourArea cv contour in
      if lo < area \<and> area < hi then
        (case boundingRect cv contour of
           (x, y, w, h) \<Rightarrow>
             mark_contours cv lo hi colour contours marked_img
               (hp[marked_img := rectangle cv (hp ! marked_img) (x, y) (x + w, y + h) colour 2]))
      else mark_contours cv lo hi colour contours marked_img hp)"

text \<open>
  The loop of lines 89--91 and of lines 96--98: the two differ in the thickness.
\<close>

fun mark_lines :: "cv2 \<Rightarrow> pixel \<Rightarrow> int \<Rightarrow> segment list \<Rightarrow> nat \<Rightarrow> heap \<Rightarrow> heap" where
  "mark_lines cv colour thickness [] marked_img hp = hp"
| "mark_lines cv colour thickness ((x1, y1, x2, y2) # lines) marked_img hp =
     mark_lines cv colour thickness lines marked_img
       (hp[marked_img := line cv (hp ! marked_img) (x1, y1) (x2, y2) colour thickness])"

text \<open>
  \<open>mark_ecg_image\<close> (lines 72--108) takes the address of \<^verbatim>\<open>img_array\<close> and returns
  the address of \<^verbatim>\<open>marked_img\<close>, or the exception raised on line 75, with the heap
  after the call.
\<close>

definition mark_ecg_image :: "cv2 \<Rightarrow> heap \<Rightarrow> nat \<Rightarrow> string \<Rightarrow> (exn + nat) \<times> heap" where
  "mark_ecg_image cv hp img_array prediction =
     (case ndarray_copy hp img_array of
        (marked_img, hp1) \<Rightarrow>
          (case cv2_cvtColor cv (hp1 ! img_array) COLOR_RGB2GRAY of
             Inl e \<Rightarrow> (Inl e, hp1)
           | Inr gray \<Rightarrow>
               let edges = Canny cv gray 50 150
               in if prediction = ''Abnormal_Heartbeat'' then
                    (Inr marked_img,
                     mark_contours cv 30 300 (255, 0, 0)
                       (findContours cv edges RETR_EXTERNAL CHAIN_APPROX_SIMPLE) marked_img hp1)
                  else if prediction = ''Myocardial_Infarction'' then
                    (case HoughLinesP cv edges 1 (pi / 180) 25 10 15 of
                       None \<Rightarrow> (Inr marked_img, hp1)
                     | Some lines \<Rightarrow>
                         (Inr marked_img,
                          mark_lines cv (0, 255, 0) 3 (take 12 lines) marked_img hp1))
                  else if prediction = ''Normal_ECG'' then
                    (case HoughLinesP cv edges 1 (pi / 180) 50 20 5 of
                       None \<Rightarrow> (Inr marked_img, hp1)
                     | Some lines \<Rightarrow>
                         (Inr marked_img,
                          mark_lines cv (0, 255, 0) 2 (take 10 lines) marked_img hp1))
                  else if prediction = ''Post_MI_History'' then
                    (Inr marked_img,
                     mark_contours cv 25 250 (255, 0, 255)
                       (findContours cv edges RETR_EXTERNAL CHAIN_APPROX_SIMPLE) marked_img hp1)
                  else (Inr marked_img, hp1)))"

section \<open>ECG reader: the analyze route\<close>

text \<open>A JSON value; the body of a response is the dict handed to \<^verbatim>\<open>jsonify\<close>.\<close>

datatype json =
    JBool bool
  | JNum real
  | JStr string
  | JList "json list"
  | JObj "(string \<times> json) list"

type_synonym response = "(string \<times> json) list"

subsection \<open>get_explanation (lines 110--162)\<close>

text \<open>The icons are outside ASCII; they are written as their UTF-8 bytes.\<close>

definition explanation_Abnormal_Heartbeat :: json where
  "explanation_Abnormal_Heartbeat = JObj
     [(''title'', JStr ''Abnormal Heartbeat Detected''),
      (''severity'', JStr ''warning''),
      (''icon'', JStr [CHR 0xE2, CHR 0x9A, CHR 0xA0, CHR 0xEF, CHR 0xB8, CHR 0x8F]),
      (''findings'', JList
         [JStr ''Irregular rhythm with inconsistent intervals'',
          JStr ''Extra beats or premature contractions detected'',
          JStr ''P, QRS, or T wave disruptions observed'',
          JStr ''Non-standard electrical conduction patterns'']),
      (''recommendation'', JStr
         ''Consult with a cardiologist for further evaluation and possible rhythm monitoring.'')]"

definition explanation_Myocardial_Infarction :: json where
  "explanation_Myocardial_Infarction = JObj
     [(''title'', JStr ''Myocardial Infarction Signs''),
      (''severity'', JStr ''critical''),
      (''icon'', JStr [CHR 0xF0, CHR 0x9F, CHR 0x9A, CHR 0xA8]),
      (''findings'', JList
         [JStr ''ST-segment elevation indicating heart muscle damage'',
          JStr ''Abnormal Q-waves suggesting tissue necrosis'',
          JStr ''T-wave inversions indicating ischemia'',
          JStr ''Altered ST and T segments detected'']),
      (''recommendation'', JStr
         ''IMMEDIATE medical attention required. Contact emergency services or go to the nearest ER.'')]"

definition explanation_Normal_ECG :: json where
  "explanation_Normal_ECG = JObj
     [(''title'', JStr ''Normal ECG Pattern''),
      (''severity'', JStr ''normal''),
      (''icon'', JStr [CHR 0xE2, CHR 0x9C, CHR 0x93]),
      (''findings'', JList
         [JStr ''Regular rhythm with consistent intervals'',
          JStr ''Normal P-QRS-T wave sequence'',
          JStr ''Appropriate wave amplitudes'',
          JStr ''No significant abnormalities detected'']),
      (''recommendation'', JStr
         ''Continue regular health check-ups and maintain a heart-healthy lifestyle.'')]"

definition explanation_Post_MI_History :: json where
  "explanation_Post_MI_History = JObj
     [(''title'', JStr ''Post-MI Changes Detected''),
      (''severity'', JStr ''monitor''),
      (''icon'', JStr [CHR 0xF0, CHR 0x9F, CHR 0x93, CHR 0x8B]),
      (''findings'', JList
         [JStr ''Evidence of previous cardiac event'',
          JStr ''Persistent ECG abnormalities from scar tissue'',
          JStr ''Altered electrical conduction pathways'',
          JStr ''Permanent changes from prior myocardial damage'']),
      (''recommendation'', JStr
         ''Regular follow-up with cardiologist. Continue prescribed medications and lifestyle modifications.'')]"

definition explanations :: "(string \<times> json) list" where
  "explanations =
     [(''Abnormal_Heartbeat'', explanation_Abnormal_Heartbeat),
      (''Myocardial_Infarction'', explanation_Myocardial_Infarction),
      (''Normal_ECG'', explanation_Normal_ECG),
      (''Post_MI_History'', explanation_Post_MI_History)]"

definition get_explanation :: "string \<Rightarrow> json" where
  "get_explanation prediction =
     (case map_of explanations prediction of
        Some e \<Rightarrow> e
      | None \<Rightarrow> explanation_Normal_ECG)"

subsection \<open>The PIL calls and the request\<close>

text \<open>
  \<^item> \<open>decode_RGB bytes\<close>: \<^verbatim>\<open>Image.open(BytesIO(bytes))\<close> followed by
    \<^verbatim>\<open>convert('RGB')\<close> (lines 1071--1072); raises for bytes that are no image.
  \<^item> \<open>jpeg_base64 img\<close>: \<^verbatim>\<open>Image.fromarray\<close>, \<^verbatim>\<open>save(..., format="JPEG")\<close> and
    \<^verbatim>\<open>b64encode\<close>; the JPEG encoder raises for a picture it cannot store.
\<close>

record pil =
  decode_RGB :: "nat list \<Rightarrow> exn + image"
  jpeg_base64 :: "image \<Rightarrow> exn + string"

text \<open>\<^verbatim>\<open>request.files\<close>: the uploaded files by field name, each with its bytes.\<close>

record request =
  files :: "(string \<times> nat list) list"

text \<open>\<open>image_to_base64\<close> (lines 1100--1105).\<close>

definition image_to_base64 :: "pil \<Rightarrow> image \<Rightarrow> exn + string" where
  "image_to_base64 P img_array = jpeg_base64 P img_array"

subsection \<open>analyze (lines 1056--1098)\<close>

text \<open>
  The body of the \<^verbatim>\<open>try\<close>: \<open>Inr\<close> is the dict of a \<^verbatim>\<open>return jsonify(...)\<close>,
  \<open>Inl\<close> an exception raised on the way. The decoded picture is the only array on the
  heap when \<open>mark_ecg_image\<close> runs, at address 0.
\<close>

definition analyze_try :: "torch \<Rightarrow> cv2 \<Rightarrow> pil \<Rightarrow> globals \<Rightarrow> request \<Rightarrow> exn + response" where
  "analyze_try T cv P g req =
     (case MODEL g of
        None \<Rightarrow>
          Inr [(''success'', JBool False),
               (''error'', JStr ''Model not loaded. Please ensure trained_ecg_model.pth is available.'')]
      | Some m \<Rightarrow>
          (case map_of (files req) ''file'' of
             None \<Rightarrow> Inr [(''success'', JBool False), (''error'', JStr ''No file uploaded'')]
           | Some image_bytes \<Rightarrow>
               (case decode_RGB P image_bytes of
                  Inl e \<Rightarrow> Inl e
                | Inr img \<Rightarrow>
                    (case analyze_ecg_image T g img of
                       Inl e \<Rightarrow> Inl e
                     | Inr (prediction, confidence, probabilities) \<Rightarrow>
                         (case mark_ecg_image cv [img] 0 prediction of
                            (Inl e, hp) \<Rightarrow> Inl e
                          | (Inr marked_array, hp) \<Rightarrow>
                              (case image_to_base64 P (hp ! 0) of
                                 Inl e \<Rightarrow> Inl e
                               | Inr original_base64 \<Rightarrow>
                                   (case image_to_base64 P (hp ! marked_array) of
                                      Inl e \<Rightarrow> Inl e
                                    | Inr marked_base64 \<Rightarrow>
                                        Inr [(''success'', JBool True),
                                             (''prediction'', JStr prediction),
                                             (''confidence'', JNum confidence),
                                             (''probabilities'', JList (map JNum probabilities)),
                                             (''original_image'', JStr original_base64),
                                             (''marked_image'', JStr marked_base64),
                                             (''explanation'', get_explanation prediction)])))))))"

text \<open>The \<^verbatim>\<open>except Exception\<close> branch turns every exception into a failure dict.\<close>

definition analyze :: "torch \<Rightarrow> cv2 \<Rightarrow> pil \<Rightarrow> globals \<Rightarrow> request \<Rightarrow> response" where
  "analyze T cv P g req =
     (case analyze_try T cv P g req of
        Inr r \<Rightarrow> r
      | Inl e \<Rightarrow> [(''success'', JBool False), (''error'', JStr (str e))])"

section \<open>Notions of the specification\<close>




text \<open>The edge map: Canny with the thresholds 50 and 150 on the grayscale picture.\<close>

definition edge_map :: "cv2 \<Rightarrow> image \<Rightarrow> gray_image" where
  "edge_map cv img = Canny cv (cvtColor cv img COLOR_RGB2GRAY) 50 150"

text \<open>The bounding rectangle of a contour, drawn with thickness 2.\<close>

definition draw_box :: "cv2 \<Rightarrow> pixel \<Rightarrow> image \<Rightarrow> contour \<Rightarrow> image" where
  "draw_box cv colour im c =
     (case boundingRect cv c of
        (x, y, w, h) \<Rightarrow> rectangle cv im (x, y) (x + w, y + h) colour 2)"

definition draw_segment :: "cv2 \<Rightarrow> pixel \<Rightarrow> int \<Rightarrow> image \<Rightarrow> segment \<Rightarrow> image" where
  "draw_segment cv colour thickness im s =
     (case s of (x1, y1, x2, y2) \<Rightarrow> line cv im (x1, y1) (x2, y2) colour thickness)"

text \<open>
  The two marking strategies of the table in section 4.4: a box around every contour of
  the edge map whose area lies strictly between \<open>lo\<close> and \<open>hi\<close>; and the first \<open>n\<close>
  segments that the detector finds in the edge map, the picture itself when it finds none.
\<close>

definition boxes_drawn :: "cv2 \<Rightarrow> real \<Rightarrow> real \<Rightarrow> pixel \<Rightarrow> gray_image \<Rightarrow> image \<Rightarrow> image" where
  "boxes_drawn cv lo hi colour edges img =
     foldl (draw_box cv colour) img
       (filter (\<lambda>c. lo < contourArea cv c \<and> contourArea cv c < hi)
          (findContours cv edges RETR_EXTERNAL CHAIN_APPROX_SIMPLE))"

definition segments_drawn ::
    "cv2 \<Rightarrow> int \<Rightarrow> real \<Rightarrow> real \<Rightarrow> nat \<Rightarrow> pixel \<Rightarrow> int \<Rightarrow> gray_image \<Rightarrow> image \<Rightarrow> image" where
  "segments_drawn cv threshold minLineLength maxLineGap n colour thickness edges img =
     (case HoughLinesP cv edges 1 (pi / 180) threshold minLineLength maxLineGap of
        None \<Rightarrow> img
      | Some ls \<Rightarrow> foldl (draw_segment cv colour thickness) img (take n ls))"

text \<open>
  The softmax of the specification, over the reals, and two ways in which a computed
  probability vector \<open>ps\<close> can follow the logits \<open>xs\<close>: it keeps their order (a logit
  that is not smaller never gets a smaller probability), or it has exactly their order
  (in addition, different logits get different probabilities).
\<close>

definition real_softmax :: "real list \<Rightarrow> real list" where
  "real_softmax xs = map (\<lambda>x. exp x / sum_list (map exp xs)) xs"

definition order_kept :: "real list \<Rightarrow> real list \<Rightarrow> bool" where
  "order_kept xs ps =
     (length ps = length xs
      \<and> (\<forall>(x, p)\<in>set (zip xs ps). \<forall>(y, q)\<in>set (zip xs ps). x \<le> y \<longrightarrow> p \<le> q))"

definition order_exact :: "real list \<Rightarrow> real list \<Rightarrow> bool" where
  "order_exact xs ps =
     (length ps = length xs
      \<and> (\<forall>(x, p)\<in>set (zip xs ps). \<forall>(y, q)\<in>set (zip xs ps). (p < q) = (x < y)))"

text \<open>
  The two shapes of a response: a failure carries the flag and a message and none of
  the four output fields; a success carries the flag and all four of them.
\<close>

definition failure :: "string \<Rightarrow> response" where
  "failure msg = [(''success'', JBool False), (''error'', JStr msg)]"

definition complete_success :: "response \<Rightarrow> bool" where
  "complete_success r =
     (map_of r ''success'' = Some (JBool True)
      \<and> map_of r ''prediction'' \<noteq> None \<and> map_of r ''confidence'' \<noteq> None
      \<and> map_of r ''probabilities'' \<noteq> None \<and> map_of r ''marked_image'' \<noteq> None
      \<and> map_of r ''error'' = None)"

definition bare_failure :: "response \<Rightarrow> bool" where
  "bare_failure r =
     (map_of r ''success'' = Some (JBool False)
      \<and> (case map_of r ''error'' of Some (JStr msg) \<Rightarrow> True | _ \<Rightarrow> False)
      \<and> map_of r ''prediction'' = None \<and> map_of r ''confidence'' = None
      \<and> map_of r ''probabilities'' = None \<and> map_of r ''marked_image'' = None)"

section \<open>Sample inputs\<close>

text \<open>
  A checkpoint with all three keys, and four behaviours of torch on it: the network
  accepts the weights; it rejects them; the file cannot be read; the forward pass
  raises. The sample network answers with the logits \<open>0, 0, ln 2, 0\<close>, and the sample
  softmax is the exact one.
\<close>

definition sample_state_dict :: state_dict where
  "sample_state_dict = [(''head.fc.weight'', ([4, 1024], []))]"

definition sample_checkpoint :: checkpoint where
  "sample_checkpoint =
     \<lparr>model_state_dict = Some sample_state_dict,
      label_to_id = Some [(''Abnormal_Heartbeat'', 0), (''Myocardial_Infarction'', 1),
                          (''Normal_ECG'', 2), (''Post_MI_History'', 3)],
      id_to_label = Some [(0, ''Abnormal_Heartbeat''), (1, ''Myocardial_Infarction''),
                          (2, ''Normal_ECG''), (3, ''Post_MI_History'')]\<rparr>"

definition sample_torch :: torch where
  "sample_torch =
     \<lparr>torch_load = (\<lambda>p. Inr sample_checkpoint),
      load_state_dict_error = (\<lambda>sd. None),
      transform = (\<lambda>img. ([1, 3, 384, 384], [])),
      forward = (\<lambda>m x. Inr (\<lambda>i. if i = 2 then ln 2 else 0)),
      softmax = real_softmax\<rparr>"

definition rejecting_torch :: torch where
  "rejecting_torch =
     sample_torch\<lparr>load_state_dict_error :=
       (\<lambda>sd. Some (RuntimeError ''size mismatch for head.fc.weight''))\<rparr>"

definition missing_torch :: torch where
  "missing_torch =
     sample_torch\<lparr>torch_load := (\<lambda>p. Inl (FileNotFoundError ''No such file or directory''))\<rparr>"

definition broken_torch :: torch where
  "broken_torch = sample_torch\<lparr>forward := (\<lambda>m x. Inl (RuntimeError ''CUDA out of memory''))\<rparr>"

text \<open>
  A network that answers with the logits 0, \<^verbatim>\<open>2**-30\<close>, 0, 0, all of them 32-bit
  floats, and the softmax of 32-bit arithmetic on these logits. The greatest logit is
  \<^verbatim>\<open>2**-30\<close>; for the other three \<^verbatim>\<open>exp(x - max)\<close> is \<^verbatim>\<open>exp(-2**-30)\<close>, which
  lies within \<^verbatim>\<open>2**-30\<close> of 1 and rounds to 1, the floats next to 1 being
  \<^verbatim>\<open>1 - 2**-24\<close> and \<^verbatim>\<open>1 + 2**-23\<close>. The four exponentials are 1, their sum is 4,
  and every probability is 0.25.
\<close>

definition rounding_torch :: torch where
  "rounding_torch =
     sample_torch
       \<lparr>forward := (\<lambda>m x. Inr (\<lambda>i. if i = 1 then 1 / 2 ^ 30 else 0)),
        softmax := (\<lambda>xs. if xs = [0, 1 / 2 ^ 30, 0, 0] then [1 / 4, 1 / 4, 1 / 4, 1 / 4]
                          else real_softmax xs)\<rparr>"

text \<open>The network as \<^verbatim>\<open>create_model\<close> returns it, and as a complete load leaves it.\<close>

definition fresh_model :: model where
  "fresh_model = \<lparr>ident = 0, weights = None, training = True, on_device = False\<rparr>"

definition loaded_model :: model where
  "loaded_model =
     \<lparr>ident = 0, weights = Some sample_state_dict, training = False, on_device = True\<rparr>"

text \<open>The globals after a load that stopped in \<^verbatim>\<open>load_state_dict\<close>, and after a complete one.\<close>

definition half_loaded_globals :: globals where
  "half_loaded_globals =
     \<lparr>MODEL = Some fresh_model, LABEL_TO_ID = None, ID_TO_LABEL = None,
      disk_reads = [''trained_ecg_model.pth''], created = 1,
      stdout = [''Error loading model: size mismatch for head.fc.weight'']\<rparr>"

definition loaded_globals :: globals where
  "loaded_globals =
     \<lparr>MODEL = Some loaded_model,
      LABEL_TO_ID = Some [(''Abnormal_Heartbeat'', 0), (''Myocardial_Infarction'', 1),
                          (''Normal_ECG'', 2), (''Post_MI_History'', 3)],
      ID_TO_LABEL = Some [(0, ''Abnormal_Heartbeat''), (1, ''Myocardial_Infarction''),
                          (2, ''Normal_ECG''), (3, ''Post_MI_History'')],
      disk_reads = [''trained_ecg_model.pth''], created = 1, stdout = []\<rparr>"

text \<open>
  A picture of one row and two pixels, and an OpenCV that finds two contours (of areas
  64 and 16) and one segment, paints a rectangle over the whole picture and a line over
  the first pixel of each row.
\<close>

definition sample_image :: image where
  "sample_image = [[(10, 20, 30), (40, 50, 60)]]"

text \<open>An array of shape (0, 0, 3).\<close>

definition empty_image :: image where
  "empty_image = []"

definition sample_cv2 :: cv2 where
  "sample_cv2 =
     \<lparr>cvtColor = (\<lambda>img flag. map (map fst) img),
      Canny = (\<lambda>gray lo hi. gray),
      findContours = (\<lambda>edges mode method. [[(0, 0), (0, 8), (8, 8), (8, 0)], [(0, 0)]]),
      contourArea = (\<lambda>c. 16 * real (length c)),
      boundingRect = (\<lambda>c. (0, 0, 9, 9)),
      HoughLinesP = (\<lambda>edges rho theta threshold minLineLength maxLineGap. Some [(0, 0, 1, 0)]),
      rectangle = (\<lambda>im p q colour thickness. map (map (\<lambda>px. colour)) im),
      line = (\<lambda>im p q colour thickness. map (\<lambda>row. colour # tl row) im)\<rparr>"

definition sample_pil :: pil where
  "sample_pil =
     \<lparr>decode_RGB =
        (\<lambda>bytes. if bytes = [] then Inl (UnidentifiedImageError ''cannot identify image file'')
                  else Inr sample_image),
      jpeg_base64 = (\<lambda>img. Inr ''/9j/4AAQ'')\<rparr>"

definition sample_request :: request where
  "sample_request = \<lparr>files = [(''file'', [255, 216, 255])]\<rparr>"

section \<open>The model manager\<close>

lemma load_model_cached: "MODEL g = Some m \<Longrightarrow> load_model T p g = (Some m, g)"
  by (simp add: load_model_def)

text \<open>A load that fails inside \<^verbatim>\<open>torch.load\<close> (missing or corrupt file) sets no global.\<close>

lemma load_model_read_failure:
  assumes "not_loaded g" and "torch_load T p = Inl e"
  shows "fst (load_model T p g) = None \<and> not_loaded (snd (load_model T p g))"
  using assms by (simp add: load_model_def load_failed_def not_loaded_def)

text \<open>A load that returns a model has set \<^verbatim>\<open>MODEL\<close> to that model.\<close>

lemma load_labels_Some:
  "load_labels ckpt m g = (Some m', g') \<Longrightarrow> MODEL g = Some m \<Longrightarrow> MODEL g' = Some m'"
  by (auto simp: load_labels_def load_failed_def Let_def split: option.splits)

lemma load_weights_Some:
  "load_weights T ckpt g = (Some m', g') \<Longrightarrow> MODEL g' = Some m'"
  by (auto simp: load_weights_def load_failed_def Let_def split: option.splits
           dest!: load_labels_Some)

lemma load_model_Some:
  "load_model T p g = (Some m, g') \<Longrightarrow> MODEL g' = Some m"
  by (auto simp: load_model_def load_failed_def Let_def split: option.splits sum.splits
           dest: load_weights_Some)

text \<open>
  Once \<^verbatim>\<open>torch.load\<close> has returned, \<^verbatim>\<open>MODEL\<close> is set when \<open>load_model\<close> returns,
  whether the load succeeds or not.
\<close>

lemma load_labels_MODEL: "MODEL (snd (load_labels ckpt m g)) = MODEL g"
  by (simp add: load_labels_def load_failed_def Let_def split: option.splits)

lemma load_weights_MODEL: "MODEL (snd (load_weights T ckpt g)) \<noteq> None"
  by (simp add: load_weights_def load_failed_def load_labels_MODEL Let_def split: option.splits)

lemma load_model_readable_sets_MODEL:
  "torch_load T p = Inr ckpt \<Longrightarrow> MODEL (snd (load_model T p g)) \<noteq> None"
  using load_weights_MODEL [of T ckpt "g\<lparr>disk_reads := disk_reads g @ [p]\<rparr>"]
  by (auto simp: load_model_def Let_def split: option.splits)

lemma load_sample:
  "load_model sample_torch ''trained_ecg_model.pth'' initial_globals
     = (Some loaded_model, loaded_globals)"
  by (simp add: load_model_def load_weights_def load_labels_def sample_torch_def
        sample_checkpoint_def initial_globals_def loaded_model_def loaded_globals_def Let_def)

text \<open>
  C1. The claim: after every failed load the three globals are all unset, so that a
  later call retries. The code assigns \<^verbatim>\<open>MODEL\<close> on line 36, before
  \<^verbatim>\<open>load_state_dict\<close> and the two label lookups; when one of these raises, the
  \<^verbatim>\<open>except\<close> branch returns \<^verbatim>\<open>None\<close> and leaves \<^verbatim>\<open>MODEL\<close> set. Here: a fresh
  process and a readable checkpoint whose weights the network rejects. The load returns
  \<^verbatim>\<open>None\<close>, \<^verbatim>\<open>MODEL\<close> holds the randomly initialised network while both label maps
  are unset, and a second call, made when the network would accept the weights, returns
  that network from the cache instead of loading.
\<close>

theorem load_model_shape_mismatch_keeps_model:
  "load_model rejecting_torch ''trained_ecg_model.pth'' initial_globals
     = (None, half_loaded_globals)
   \<and> MODEL half_loaded_globals = Some fresh_model
   \<and> LABEL_TO_ID half_loaded_globals = None
   \<and> ID_TO_LABEL half_loaded_globals = None
   \<and> \<not> not_loaded half_loaded_globals
   \<and> load_model sample_torch ''trained_ecg_model.pth'' half_loaded_globals
     = (Some fresh_model, half_loaded_globals)"
  by (simp add: load_model_def load_weights_def load_failed_def not_loaded_def
        rejecting_torch_def sample_torch_def sample_checkpoint_def initial_globals_def
        half_loaded_globals_def fresh_model_def Let_def)

text \<open>
  C6. Two calls of \<open>load_model\<close> with the same path, the second in the state that the
  first one leaves. When the first call returns a model, the second returns the same
  model object. Whenever a model is present after the first call, the second call
  returns that model, leaves every global as it is and reads nothing from the disk.
\<close>

theorem load_model_twice:
  assumes "load_model T p g = (r, g')"
  shows "(r = Some m \<longrightarrow> fst (load_model T p g') = Some m)
       \<and> (MODEL g' = Some m \<longrightarrow>
            load_model T p g' = (Some m, g')
            \<and> disk_reads (snd (load_model T p g')) = disk_reads g')"
proof (intro conjI impI)
  assume r: "r = Some m"
  with assms have "MODEL g' = Some m" by (simp add: load_model_Some)
  then show "fst (load_model T p g') = Some m" by (simp add: load_model_cached)
next
  assume "MODEL g' = Some m"
  then show "load_model T p g' = (Some m, g')" by (rule load_model_cached)
  then show "disk_reads (snd (load_model T p g')) = disk_reads g'" by simp
qed

theorem load_model_twice_witness:
  "load_model sample_torch ''trained_ecg_model.pth'' initial_globals
     = (Some loaded_model, loaded_globals)
   \<and> MODEL loaded_globals = Some loaded_model
   \<and> load_model sample_torch ''trained_ecg_model.pth'' loaded_globals
     = (Some loaded_model, loaded_globals)"
  using load_model_twice [OF load_sample, of loaded_model] load_sample
  by (simp add: loaded_globals_def)

text \<open>
  C10. Once \<^verbatim>\<open>MODEL\<close> is set, \<open>load_model\<close> returns it for every path and every
  content of the file system, with the globals and the list of disk reads unchanged:
  the result does not depend on the path.
\<close>

theorem load_model_ignores_path:
  assumes "MODEL g = Some m"
  shows "load_model T p g = (Some m, g) \<and> load_model T' p' g = load_model T p g"
  using assms by (simp add: load_model_cached)

theorem load_model_ignores_path_witness:
  "MODEL loaded_globals = Some loaded_model
   \<and> torch_load missing_torch ''no_such_file.pth''
       = Inl (FileNotFoundError ''No such file or directory'')
   \<and> load_model missing_torch ''no_such_file.pth'' loaded_globals
       = (Some loaded_model, loaded_globals)"
  using load_model_ignores_path [of loaded_globals loaded_model missing_torch
      "''no_such_file.pth''"]
  by (simp add: loaded_globals_def missing_torch_def)

section \<open>Classification\<close>

lemma argmax_less: "xs \<noteq> [] \<Longrightarrow> argmax xs < length xs"
  by (induction xs rule: argmax.induct) (auto simp: Let_def)

lemma argmax_Cons_nth:
  "(x # y # ys) ! argmax (x # y # ys) = max x ((y # ys) ! argmax (y # ys))"
  by (simp add: Let_def max_def)

lemma argmax_greatest: "x \<in> set xs \<Longrightarrow> x \<le> xs ! argmax xs"
proof (induction xs arbitrary: x rule: argmax.induct)
  case 1
  then show ?case by simp
next
  case (2 a)
  then show ?case by simp
next
  case (3 a b ys)
  show ?case
  proof (cases "x = a")
    case True
    then show ?thesis unfolding argmax_Cons_nth by simp
  next
    case False
    with "3.prems" have "x \<in> set (b # ys)" by simp
    then have "x \<le> (b # ys) ! argmax (b # ys)" by (rule "3.IH")
    then show ?thesis unfolding argmax_Cons_nth by simp
  qed
qed

text \<open>Every entry before the argmax is strictly smaller: the argmax is the first maximum.\<close>

lemma argmax_first: "i < argmax xs \<Longrightarrow> xs ! i < xs ! argmax xs"
proof (induction xs arbitrary: i rule: argmax.induct)
  case 1
  then show ?case by simp
next
  case (2 a)
  then show ?case by simp
next
  case (3 a b ys)
  let ?j = "argmax (b # ys)"
  from "3.prems" have lt: "a < (b # ys) ! ?j" and am: "argmax (a # b # ys) = Suc ?j"
    by (auto simp: Let_def split: if_splits)
  show ?case
  proof (cases i)
    case 0
    with lt am show ?thesis by simp
  next
    case (Suc k)
    with "3.prems" am have "k < ?j" by simp
    then have "(b # ys) ! k < (b # ys) ! ?j" by (rule "3.IH")
    with Suc am show ?thesis by simp
  qed
qed

lemma argmax_unique:
  assumes k: "k < length xs"
    and greatest: "\<And>i. i < length xs \<Longrightarrow> xs ! i \<le> xs ! k"
    and first: "\<And>i. i < k \<Longrightarrow> xs ! i < xs ! k"
  shows "argmax xs = k"
proof -
  from k have ne: "xs \<noteq> []" by auto
  then have a: "argmax xs < length xs" by (rule argmax_less)
  have "xs ! k \<le> xs ! argmax xs" using k by (simp add: argmax_greatest)
  moreover have "xs ! argmax xs \<le> xs ! k" using a by (rule greatest)
  ultimately have eq: "xs ! argmax xs = xs ! k" by simp
  have "\<not> argmax xs < k" using first [of "argmax xs"] eq by auto
  moreover have "\<not> k < argmax xs" using argmax_first [of k xs] eq by auto
  ultimately show ?thesis by simp
qed

lemma argmax_Max: "xs \<noteq> [] \<Longrightarrow> xs ! argmax xs = Max (set xs)"
proof -
  assume ne: "xs \<noteq> []"
  then have "xs ! argmax xs \<in> set xs" by (simp add: argmax_less)
  then have "Max (set xs) = xs ! argmax xs"
    by (intro Max_eqI) (auto simp: argmax_greatest)
  then show ?thesis by simp
qed

text \<open>The two order predicates, by position.\<close>

lemma zip_nth_mem:
  "length ps = length xs \<Longrightarrow> i < length xs \<Longrightarrow> (xs ! i, ps ! i) \<in> set (zip xs ps)"
  by (auto simp: set_zip)

lemma order_kept_nth:
  assumes "order_kept xs ps" and "i < length xs" and "j < length xs" and "xs ! i \<le> xs ! j"
  shows "ps ! i \<le> ps ! j"
proof -
  from assms(1) have len: "length ps = length xs" by (simp add: order_kept_def)
  from assms(1) zip_nth_mem [OF len assms(2)] zip_nth_mem [OF len assms(3)] assms(4)
  show ?thesis unfolding order_kept_def by blast
qed

lemma order_exact_nth:
  assumes "order_exact xs ps" and "i < length xs" and "j < length xs"
  shows "(ps ! i < ps ! j) = (xs ! i < xs ! j)"
proof -
  from assms(1) have len: "length ps = length xs" by (simp add: order_exact_def)
  from assms(1) zip_nth_mem [OF len assms(2)] zip_nth_mem [OF len assms(3)]
  show ?thesis unfolding order_exact_def by blast
qed

lemma order_exact_kept: "order_exact xs ps \<Longrightarrow> order_kept xs ps"
  unfolding order_exact_def order_kept_def by (auto simp: not_less [symmetric])

text \<open>
  When the probabilities keep the order of the logits, the probability at the argmax of
  the logits is the greatest probability.
\<close>

lemma order_kept_Max:
  assumes kept: "order_kept xs ps" and ne: "xs \<noteq> []"
  shows "ps ! argmax xs = Max (set ps)"
proof -
  from kept have len: "length ps = length xs" by (simp add: order_kept_def)
  have a: "argmax xs < length xs" using ne by (rule argmax_less)
  have "Max (set ps) = ps ! argmax xs"
  proof (rule Max_eqI)
    show "finite (set ps)" by simp
    show "ps ! argmax xs \<in> set ps" using a len by simp
  next
    fix q assume "q \<in> set ps"
    then obtain i where i: "i < length xs" and q: "q = ps ! i"
      using len by (auto simp: in_set_conv_nth)
    have "xs ! i \<le> xs ! argmax xs" using i by (simp add: argmax_greatest)
    with kept i a show "q \<le> ps ! argmax xs" unfolding q by (rule order_kept_nth)
  qed
  then show ?thesis by simp
qed

text \<open>
  When the probabilities have exactly the order of the logits, the two argmax agree.
\<close>

lemma order_exact_argmax:
  assumes exact: "order_exact xs ps"
  shows "argmax ps = argmax xs"
proof (cases "xs = []")
  case True
  with exact show ?thesis by (simp add: order_exact_def)
next
  case False
  from exact have len: "length ps = length xs" by (simp add: order_exact_def)
  have a: "argmax xs < length xs" using False by (rule argmax_less)
  show ?thesis
  proof (rule argmax_unique)
    show "argmax xs < length ps" using a len by simp
  next
    fix i assume "i < length ps"
    then have i: "i < length xs" using len by simp
    have "xs ! i \<le> xs ! argmax xs" using i by (simp add: argmax_greatest)
    then have "\<not> xs ! argmax xs < xs ! i" by simp
    then have "\<not> ps ! argmax xs < ps ! i" using order_exact_nth [OF exact a i] by simp
    then show "ps ! i \<le> ps ! argmax xs" by simp
  next
    fix i assume lt: "i < argmax xs"
    then have i: "i < length xs" using a by simp
    from lt have "xs ! i < xs ! argmax xs" by (rule argmax_first)
    then show "ps ! i < ps ! argmax xs" using order_exact_nth [OF exact i a] by simp
  qed
qed

text \<open>The exact softmax has exactly the order of the logits.\<close>

lemma sum_list_exp_pos: "xs \<noteq> [] \<Longrightarrow> 0 < sum_list (map exp (xs :: real list))"
proof (cases xs)
  case Nil
  assume "xs \<noteq> []"
  with Nil show ?thesis by simp
next
  case (Cons a ys)
  have "0 \<le> sum_list (map exp ys)" by (rule sum_list_nonneg) auto
  moreover have "0 < exp a" by simp
  ultimately show ?thesis using Cons by (simp add: add_pos_nonneg)
qed

lemma order_exact_real_softmax: "order_exact xs (real_softmax xs)"
proof (cases "xs = []")
  case True
  then show ?thesis by (simp add: order_exact_def real_softmax_def)
next
  case False
  then have Z: "0 < sum_list (map exp xs)" by (rule sum_list_exp_pos)
  have "\<And>a b :: real. (exp a / sum_list (map exp xs) < exp b / sum_list (map exp xs)) = (a < b)"
    using Z by (simp add: divide_less_cancel)
  then show ?thesis
    by (auto simp: order_exact_def real_softmax_def zip_map2 zip_same_conv_map)
qed

text \<open>
  \<^verbatim>\<open>exp(-2**-30)\<close> lies strictly between \<^verbatim>\<open>1 - 2**-25\<close>, the midpoint of 1 and the
  float below it, and 1: in 32-bit arithmetic it rounds to 1.
\<close>

lemma exp_rounds_to_one:
  "1 - 1 / 2 ^ 25 < exp (- (1 / 2 ^ 30) :: real) \<and> exp (- (1 / 2 ^ 30) :: real) < 1"
proof
  have "1 + (- (1 / 2 ^ 30)) \<le> exp (- (1 / 2 ^ 30) :: real)" by (rule exp_ge_add_one_self)
  moreover have "(1 :: real) - 1 / 2 ^ 25 < 1 + (- (1 / 2 ^ 30))" by simp
  ultimately show "1 - 1 / 2 ^ 25 < exp (- (1 / 2 ^ 30) :: real)" by linarith
  show "exp (- (1 / 2 ^ 30) :: real) < 1" by simp
qed

lemma analyze_ecg_image_Inr:
  assumes "analyze_ecg_image T g img = Inr (label, conf, probs)"
  shows "\<exists>m out i2l. MODEL g = Some m \<and> forward T m (transform T img) = Inr out
           \<and> probs = softmax T (map out [0..<4]) \<and> conf = probs ! argmax (map out [0..<4])
           \<and> ID_TO_LABEL g = Some i2l \<and> map_of i2l (argmax (map out [0..<4])) = Some label"
  using assms
  by (auto simp: analyze_ecg_image_def Let_def split: option.splits sum.splits)

lemma class_indices: "[0..<4] = [0, 1, 2, 3::nat]"
  by code_simp

lemma classify_sample:
  "analyze_ecg_image sample_torch loaded_globals sample_image
     = Inr (''Normal_ECG'', 2 / 5, [1 / 5, 1 / 5, 2 / 5, 1 / 5])"
  by (simp add: analyze_ecg_image_def sample_torch_def loaded_globals_def real_softmax_def
        Let_def class_indices)

text \<open>
  C3. The claim: the label is the class at the argmax of the returned probabilities,
  which is the argmax of the logits. The code takes the argmax of the logits, and the
  probabilities are computed in 32-bit floating point, where logits that differ can get
  the same probability. Here the logits are 0, \<^verbatim>\<open>2**-30\<close>, 0, 0: the code returns the
  class of index 1, the four returned probabilities are 0.25, and their argmax, the
  first maximal index, is 0, the index of another class.
\<close>

theorem classify_rounding_counterexample:
  "analyze_ecg_image rounding_torch loaded_globals sample_image
     = Inr (''Myocardial_Infarction'', 1 / 4, [1 / 4, 1 / 4, 1 / 4, 1 / 4])
   \<and> argmax [0, 1 / 2 ^ 30, 0, 0] = 1
   \<and> argmax [1 / 4, 1 / 4, 1 / 4, 1 / 4] = 0
   \<and> ID_TO_LABEL loaded_globals
       = Some [(0, ''Abnormal_Heartbeat''), (1, ''Myocardial_Infarction''),
               (2, ''Normal_ECG''), (3, ''Post_MI_History'')]
   \<and> ''Myocardial_Infarction'' \<noteq> ''Abnormal_Heartbeat''"
  by (simp add: analyze_ecg_image_def rounding_torch_def sample_torch_def loaded_globals_def
        Let_def class_indices)

text \<open>
  C3, as the code has it. Whenever \<open>analyze_ecg_image\<close> returns a result, the returned
  vector is the computed softmax of the four logits of the network, the label is the
  class that \<^verbatim>\<open>ID_TO_LABEL\<close> gives for the argmax of the logits, and the confidence is
  the returned probability at that index. When the computed softmax keeps the order of
  the logits, the vector has four entries and the confidence is its greatest entry.
  When it has exactly the order of the logits, as the exact softmax has for every vector
  of logits, the argmax of the probabilities is the argmax of the logits and the label
  is the class at the argmax of the probabilities.
\<close>

theorem analyze_ecg_image_confidence:
  assumes "analyze_ecg_image T g img = Inr (label, conf, probs)"
  shows "(\<exists>m out i2l.
            MODEL g = Some m \<and> forward T m (transform T img) = Inr out
            \<and> probs = softmax T (map out [0..<4])
            \<and> conf = probs ! argmax (map out [0..<4])
            \<and> ID_TO_LABEL g = Some i2l
            \<and> map_of i2l (argmax (map out [0..<4])) = Some label
            \<and> (order_kept (map out [0..<4]) probs \<longrightarrow>
                 length probs = 4 \<and> conf = Max (set probs))
            \<and> (order_exact (map out [0..<4]) probs \<longrightarrow>
                 length probs = 4 \<and> conf = Max (set probs)
                 \<and> argmax probs = argmax (map out [0..<4])
                 \<and> conf = probs ! argmax probs
                 \<and> map_of i2l (argmax probs) = Some label))
       \<and> (\<forall>logits. order_exact logits (real_softmax logits)
                     \<and> argmax (real_softmax logits) = argmax logits)"
proof
  from analyze_ecg_image_Inr [OF assms] obtain m out i2l where
    m: "MODEL g = Some m" "forward T m (transform T img) = Inr out" and
    probs: "probs = softmax T (map out [0..<4])" and
    conf: "conf = probs ! argmax (map out [0..<4])" and
    i2l: "ID_TO_LABEL g = Some i2l" "map_of i2l (argmax (map out [0..<4])) = Some label"
    by blast
  let ?xs = "map out [0..<4]"
  have ne: "?xs \<noteq> []" by (simp add: class_indices)
  have kept: "length probs = 4 \<and> conf = Max (set probs)" if k: "order_kept ?xs probs"
  proof
    from k show "length probs = 4" by (simp add: order_kept_def)
    from k ne show "conf = Max (set probs)" unfolding conf by (rule order_kept_Max)
  qed
  have exact: "length probs = 4 \<and> conf = Max (set probs)
       \<and> argmax probs = argmax ?xs \<and> conf = probs ! argmax probs
       \<and> map_of i2l (argmax probs) = Some label" if e: "order_exact ?xs probs"
  proof -
    from e have "order_kept ?xs probs" by (rule order_exact_kept)
    then have "length probs = 4 \<and> conf = Max (set probs)" by (rule kept)
    moreover from e have "argmax probs = argmax ?xs" by (rule order_exact_argmax)
    ultimately show ?thesis using conf i2l by simp
  qed
  from m probs conf i2l kept exact
  show "\<exists>m out i2l.
            MODEL g = Some m \<and> forward T m (transform T img) = Inr out
            \<and> probs = softmax T (map out [0..<4])
            \<and> conf = probs ! argmax (map out [0..<4])
            \<and> ID_TO_LABEL g = Some i2l
            \<and> map_of i2l (argmax (map out [0..<4])) = Some label
            \<and> (order_kept (map out [0..<4]) probs \<longrightarrow>
                 length probs = 4 \<and> conf = Max (set probs))
            \<and> (order_exact (map out [0..<4]) probs \<longrightarrow>
                 length probs = 4 \<and> conf = Max (set probs)
                 \<and> argmax probs = argmax (map out [0..<4])
                 \<and> conf = probs ! argmax probs
                 \<and> map_of i2l (argmax probs) = Some label)"
    by blast
  show "\<forall>logits. order_exact logits (real_softmax logits)
                  \<and> argmax (real_softmax logits) = argmax logits"
    by (simp add: order_exact_real_softmax order_exact_argmax)
qed

theorem analyze_ecg_image_confidence_witness:
  "analyze_ecg_image sample_torch loaded_globals sample_image
     = Inr (''Normal_ECG'', 2 / 5, [1 / 5, 1 / 5, 2 / 5, 1 / 5])
   \<and> order_exact [0, 0, ln 2, 0] [1 / 5, 1 / 5, 2 / 5, 1 / 5]
   \<and> order_kept [0, 0, ln 2, 0] [1 / 5, 1 / 5, 2 / 5, 1 / 5]
   \<and> (2 / 5 :: real) = Max (set [1 / 5, 1 / 5, 2 / 5, 1 / 5])
   \<and> argmax [0, 0, ln 2, 0] = 2
   \<and> argmax [1 / 5, 1 / 5, 2 / 5, 1 / 5] = 2
   \<and> map_of [(0, ''Abnormal_Heartbeat''), (1, ''Myocardial_Infarction''),
              (2, ''Normal_ECG''), (3, ''Post_MI_History'')] (2::nat) = Some ''Normal_ECG''"
proof -
  have sm: "real_softmax [0, 0, ln 2, 0] = [1 / 5, 1 / 5, 2 / 5, 1 / 5]"
    by (simp add: real_softmax_def)
  have e: "order_exact [0, 0, ln 2, 0] [1 / 5, 1 / 5, 2 / 5, 1 / 5]"
    using order_exact_real_softmax [of "[0, 0, ln 2, 0]"] by (simp only: sm)
  then have k: "order_kept [0, 0, ln 2, 0] [1 / 5, 1 / 5, 2 / 5, 1 / 5]"
    by (rule order_exact_kept)
  from analyze_ecg_image_confidence [OF classify_sample]
  have "argmax (real_softmax [0, 0, ln 2, 0]) = argmax [0, 0, ln 2, 0]" by blast
  then have a: "argmax [0, 0, ln 2, 0] = 2" by (simp add: sm)
  from classify_sample e k a show ?thesis by simp
qed

section \<open>Annotation\<close>

text \<open>
  Run on a fresh array at the end of the heap, each loop changes that array only, and
  leaves in it what the strategy of the specification draws.
\<close>

lemma mark_contours_fresh:
  "mark_contours cv lo hi colour cs (length hp) (hp @ [im]) =
     hp @ [foldl (draw_box cv colour) im
             (filter (\<lambda>c. lo < contourArea cv c \<and> contourArea cv c < hi) cs)]"
proof (induction cs arbitrary: im)
  case Nil
  show ?case by simp
next
  case (Cons c cs)
  show ?case
    by (cases "boundingRect cv c") (simp add: Cons.IH draw_box_def Let_def)
qed

lemma mark_lines_fresh:
  "mark_lines cv colour thickness ls (length hp) (hp @ [im]) =
     hp @ [foldl (draw_segment cv colour thickness) im ls]"
proof (induction ls arbitrary: im)
  case Nil
  show ?case by simp
next
  case (Cons s ls)
  obtain x1 y1 x2 y2 where s: "s = (x1, y1, x2, y2)" by (cases s) auto
  show ?case by (simp add: s Cons.IH draw_segment_def)
qed

text \<open>On an array without pixels the call raises on line 75, after the copy of line 74.\<close>

lemma mark_ecg_image_empty:
  assumes "img_array < length hp" and "concat (hp ! img_array) = []"
  shows "mark_ecg_image cv hp img_array prediction =
     (Inl (CvError ''(-215:Assertion failed) !_src.empty() in function cvtColor''),
      hp @ [hp ! img_array])"
  using assms
  by (simp add: mark_ecg_image_def ndarray_copy_def cv2_cvtColor_def nth_append)

lemma mark_ecg_image_result:
  assumes "img_array < length hp" and "concat (hp ! img_array) \<noteq> []"
  shows "mark_ecg_image cv hp img_array prediction =
     (Inr (length hp),
      hp @ [if prediction = ''Abnormal_Heartbeat'' then
              boxes_drawn cv 30 300 (255, 0, 0) (edge_map cv (hp ! img_array)) (hp ! img_array)
            else if prediction = ''Myocardial_Infarction'' then
              segments_drawn cv 25 10 15 12 (0, 255, 0) 3
                (edge_map cv (hp ! img_array)) (hp ! img_array)
            else if prediction = ''Normal_ECG'' then
              segments_drawn cv 50 20 5 10 (0, 255, 0) 2
                (edge_map cv (hp ! img_array)) (hp ! img_array)
            else if prediction = ''Post_MI_History'' then
              boxes_drawn cv 25 250 (255, 0, 255) (edge_map cv (hp ! img_array)) (hp ! img_array)
            else hp ! img_array])"
  using assms
  by (simp add: mark_ecg_image_def ndarray_copy_def cv2_cvtColor_def Let_def nth_append
        mark_contours_fresh mark_lines_fresh boxes_drawn_def segments_drawn_def edge_map_def
        split: option.splits)

lemma mark_ecg_image_input_kept:
  assumes "img_array < length hp"
  shows "snd (mark_ecg_image cv hp img_array prediction) ! img_array = hp ! img_array"
proof (cases "concat (hp ! img_array) = []")
  case True
  with assms show ?thesis by (simp add: mark_ecg_image_empty nth_append)
next
  case False
  with assms show ?thesis by (simp add: mark_ecg_image_result nth_append)
qed

text \<open>
  C4. For every allocated input array and every label, whether \<open>mark_ecg_image\<close>
  returns or raises: the array that it returns is another array than its input, the
  input holds the same pixels after the call as before, and so does every other array
  allocated before the call: the call only adds one array to the heap.
\<close>

theorem mark_ecg_image_keeps_input:
  assumes "img_array < length hp"
  shows "fst (mark_ecg_image cv hp img_array prediction) \<noteq> Inr img_array
       \<and> snd (mark_ecg_image cv hp img_array prediction) ! img_array = hp ! img_array
       \<and> take (length hp) (snd (mark_ecg_image cv hp img_array prediction)) = hp
       \<and> length (snd (mark_ecg_image cv hp img_array prediction)) = Suc (length hp)"
proof (cases "concat (hp ! img_array) = []")
  case True
  with assms show ?thesis by (simp add: mark_ecg_image_empty nth_append)
next
  case False
  with assms show ?thesis by (simp add: mark_ecg_image_result nth_append)
qed

theorem mark_ecg_image_keeps_input_witness:
  "(0::nat) < length [sample_image]
   \<and> mark_ecg_image sample_cv2 [sample_image] 0 ''Abnormal_Heartbeat''
       = (Inr 1, [sample_image, [[(255, 0, 0), (255, 0, 0)]]])"
  using mark_ecg_image_keeps_input [of 0 "[sample_image]" sample_cv2 "''Abnormal_Heartbeat''"]
  by (simp add: mark_ecg_image_def ndarray_copy_def cv2_cvtColor_def sample_cv2_def
        sample_image_def)

text \<open>
  C5. The claim: for every input image and every label outside the four known ones the
  call never raises. The grayscale conversion of line 75 runs before the label is looked
  at, and \<^verbatim>\<open>cv2.cvtColor\<close> raises on an array without pixels. Here: the array of shape
  (0, 0, 3) and an unknown label; the call raises \<^verbatim>\<open>cv2.error\<close>.
\<close>

theorem mark_ecg_image_empty_counterexample:
  "''Atrial_Fibrillation'' \<noteq> ''Abnormal_Heartbeat''
   \<and> ''Atrial_Fibrillation'' \<noteq> ''Myocardial_Infarction''
   \<and> ''Atrial_Fibrillation'' \<noteq> ''Normal_ECG''
   \<and> ''Atrial_Fibrillation'' \<noteq> ''Post_MI_History''
   \<and> mark_ecg_image sample_cv2 [empty_image] 0 ''Atrial_Fibrillation''
       = (Inl (CvError ''(-215:Assertion failed) !_src.empty() in function cvtColor''),
          [empty_image, empty_image])"
  by (simp add: mark_ecg_image_def ndarray_copy_def cv2_cvtColor_def empty_image_def)

text \<open>
  C5, as the code has it. For a label outside the four known ones and an input array
  with at least one pixel, \<open>mark_ecg_image\<close> does not raise and no branch draws: the
  call returns a fresh array with exactly the pixels of the input and changes nothing
  else. For an input array without pixels the call raises \<^verbatim>\<open>cv2.error\<close> on line 75.
\<close>

theorem mark_ecg_image_unknown_label:
  assumes "prediction \<notin> {''Abnormal_Heartbeat'', ''Myocardial_Infarction'',
                          ''Normal_ECG'', ''Post_MI_History''}"
    and "img_array < length hp"
  shows "(concat (hp ! img_array) \<noteq> [] \<longrightarrow>
            mark_ecg_image cv hp img_array prediction
              = (Inr (length hp), hp @ [hp ! img_array]))
       \<and> (concat (hp ! img_array) = [] \<longrightarrow>
            mark_ecg_image cv hp img_array prediction
              = (Inl (CvError ''(-215:Assertion failed) !_src.empty() in function cvtColor''),
                 hp @ [hp ! img_array]))"
  using assms by (simp add: mark_ecg_image_result mark_ecg_image_empty)

theorem mark_ecg_image_unknown_label_witness:
  "''Atrial_Fibrillation'' \<notin> {''Abnormal_Heartbeat'', ''Myocardial_Infarction'',
                                ''Normal_ECG'', ''Post_MI_History''}
   \<and> (0::nat) < length [sample_image]
   \<and> concat ([sample_image] ! 0) \<noteq> []
   \<and> mark_ecg_image sample_cv2 [sample_image] 0 ''Atrial_Fibrillation''
       = (Inr 1, [sample_image, sample_image])
   \<and> (0::nat) < length [empty_image]
   \<and> concat ([empty_image] ! 0) = []
   \<and> mark_ecg_image sample_cv2 [empty_image] 0 ''Atrial_Fibrillation''
       = (Inl (CvError ''(-215:Assertion failed) !_src.empty() in function cvtColor''),
          [empty_image, empty_image])"
  using mark_ecg_image_unknown_label [of "''Atrial_Fibrillation''" 0 "[sample_image]" sample_cv2]
    mark_ecg_image_unknown_label [of "''Atrial_Fibrillation''" 0 "[empty_image]" sample_cv2]
  by (simp add: sample_image_def empty_image_def)





section \<open>The analyze route\<close>

lemma bare_failure_failure: "bare_failure (failure msg)"
  by (simp add: bare_failure_def failure_def)

lemma analyze_shape:
  "complete_success (analyze T cv P g req) \<or> bare_failure (analyze T cv P g req)"
proof (cases "analyze_try T cv P g req")
  case (Inl e)
  then have "analyze T cv P g req = failure (str e)" by (simp add: analyze_def failure_def)
  then show ?thesis by (simp add: bare_failure_failure)
next
  case (Inr r)
  then have r: "analyze T cv P g req = r" by (simp add: analyze_def)
  from Inr have "complete_success r \<or> (\<exists>msg. r = failure msg)"
    by (auto simp: analyze_try_def complete_success_def failure_def
             split: option.splits sum.splits prod.splits)
  then show ?thesis using r by (auto simp: bare_failure_failure)
qed

lemma classify_broken:
  "analyze_ecg_image broken_torch loaded_globals sample_image
     = Inl (RuntimeError ''CUDA out of memory'')"
  by (simp add: analyze_ecg_image_def broken_torch_def sample_torch_def loaded_globals_def)

lemma mark_sample:
  "mark_ecg_image sample_cv2 [sample_image] 0 ''Normal_ECG''
     = (Inr 1, [sample_image, [[(0, 255, 0), (40, 50, 60)]]])"
  by (simp add: mark_ecg_image_def ndarray_copy_def cv2_cvtColor_def sample_cv2_def
        sample_image_def)

text \<open>
  After the failed load of \<open>half_loaded_globals\<close> the route passes its check, runs the
  randomly initialised network and fails on the unset \<^verbatim>\<open>ID_TO_LABEL\<close>.
\<close>

lemma analyze_after_failed_load:
  "analyze sample_torch sample_cv2 sample_pil half_loaded_globals sample_request
     = failure (repr_str ''NoneType'' @ '' object is not subscriptable'')"
  by (simp add: analyze_def analyze_try_def analyze_ecg_image_def half_loaded_globals_def
        sample_request_def sample_pil_def sample_torch_def failure_def Let_def)

text \<open>
  C2. The claim: classification invoked while no model is loaded answers with an
  explicit not-loaded failure. \<open>analyze_ecg_image\<close> has no check: in the state right
  after import, where none of the three globals is set, line 63 calls \<^verbatim>\<open>None\<close> and
  the call raises \<^verbatim>\<open>TypeError\<close>, whose message is not the not-loaded message of the
  route.
\<close>

theorem classify_not_loaded_counterexample:
  "not_loaded initial_globals
   \<and> analyze_ecg_image sample_torch initial_globals sample_image
       = Inl (TypeError (repr_str ''NoneType'' @ '' object is not callable''))
   \<and> str (TypeError (repr_str ''NoneType'' @ '' object is not callable''))
       \<noteq> ''Model not loaded. Please ensure trained_ecg_model.pth is available.''"
  by (simp add: not_loaded_def initial_globals_def analyze_ecg_image_def repr_str_def)

text \<open>
  C2, as the code has it. The check is made by the route: while \<^verbatim>\<open>MODEL\<close> is
  \<^verbatim>\<open>None\<close>, it answers every request with the failure "Model not loaded. ...", which
  carries no label, confidence or probabilities, and does not call the classifier. The
  classifier, called in that state, raises the \<^verbatim>\<open>TypeError\<close> of calling \<^verbatim>\<open>None\<close>
  and returns no label.
\<close>

theorem analyze_not_loaded:
  assumes "MODEL g = None"
  shows "analyze T cv P g req =
           [(''success'', JBool False),
            (''error'', JStr ''Model not loaded. Please ensure trained_ecg_model.pth is available.'')]
       \<and> bare_failure (analyze T cv P g req)
       \<and> analyze_ecg_image T g img
           = Inl (TypeError (repr_str ''NoneType'' @ '' object is not callable''))"
  using assms
  by (simp add: analyze_def analyze_try_def analyze_ecg_image_def bare_failure_def)

theorem analyze_not_loaded_witness:
  "MODEL initial_globals = None
   \<and> analyze sample_torch sample_cv2 sample_pil initial_globals sample_request =
       [(''success'', JBool False),
        (''error'', JStr ''Model not loaded. Please ensure trained_ecg_model.pth is available.'')]"
  using analyze_not_loaded [of initial_globals sample_torch sample_cv2 sample_pil sample_request]
  by (simp add: initial_globals_def)

text \<open>
  C9. Every call of the route returns a response of one of two shapes: a success with
  the label, the confidence, the probabilities and the annotated picture all present,
  or a failure with a message and none of the four. A model that is not loaded, a
  missing file field, bytes that do not decode, an exception of the classifier and an
  exception of the annotation each give the failure with their message; when every step
  succeeds the response is the success with the values that the steps computed.
\<close>

theorem analyze_all_or_nothing:
  "(complete_success (analyze T cv P g req) \<or> bare_failure (analyze T cv P g req))
   \<and> (MODEL g = None \<longrightarrow>
        analyze T cv P g req
          = failure ''Model not loaded. Please ensure trained_ecg_model.pth is available.'')
   \<and> (MODEL g \<noteq> None \<and> map_of (files req) ''file'' = None \<longrightarrow>
        analyze T cv P g req = failure ''No file uploaded'')
   \<and> (MODEL g \<noteq> None \<and> map_of (files req) ''file'' = Some bytes
        \<and> decode_RGB P bytes = Inl e \<longrightarrow>
        analyze T cv P g req = failure (str e))
   \<and> (MODEL g \<noteq> None \<and> map_of (files req) ''file'' = Some bytes
        \<and> decode_RGB P bytes = Inr img \<and> analyze_ecg_image T g img = Inl e \<longrightarrow>
        analyze T cv P g req = failure (str e))
   \<and> (MODEL g \<noteq> None \<and> map_of (files req) ''file'' = Some bytes
        \<and> decode_RGB P bytes = Inr img
        \<and> analyze_ecg_image T g img = Inr (label, conf, probs)
        \<and> mark_ecg_image cv [img] 0 label = (Inl e, hp) \<longrightarrow>
        analyze T cv P g req = failure (str e))
   \<and> (MODEL g \<noteq> None \<and> map_of (files req) ''file'' = Some bytes
        \<and> decode_RGB P bytes = Inr img
        \<and> analyze_ecg_image T g img = Inr (label, conf, probs)
        \<and> mark_ecg_image cv [img] 0 label = (Inr marked, hp)
        \<and> jpeg_base64 P img = Inr b64
        \<and> jpeg_base64 P (hp ! marked) = Inr b64' \<longrightarrow>
        complete_success (analyze T cv P g req)
        \<and> map_of (analyze T cv P g req) ''prediction'' = Some (JStr label)
        \<and> map_of (analyze T cv P g req) ''confidence'' = Some (JNum conf)
        \<and> map_of (analyze T cv P g req) ''probabilities'' = Some (JList (map JNum probs))
        \<and> map_of (analyze T cv P g req) ''marked_image'' = Some (JStr b64'))"
proof (intro conjI impI)
  show "complete_success (analyze T cv P g req) \<or> bare_failure (analyze T cv P g req)"
    by (rule analyze_shape)
next
  assume a: "MODEL g \<noteq> None \<and> map_of (files req) ''file'' = Some bytes
        \<and> decode_RGB P bytes = Inr img
        \<and> analyze_ecg_image T g img = Inr (label, conf, probs)
        \<and> mark_ecg_image cv [img] 0 label = (Inr marked, hp)
        \<and> jpeg_base64 P img = Inr b64
        \<and> jpeg_base64 P (hp ! marked) = Inr b64'"
  have "hp ! 0 = img"
    using mark_ecg_image_input_kept [of 0 "[img]" cv label] a by simp
  with a have r: "analyze T cv P g req =
      [(''success'', JBool True), (''prediction'', JStr label), (''confidence'', JNum conf),
       (''probabilities'', JList (map JNum probs)), (''original_image'', JStr b64),
       (''marked_image'', JStr b64'), (''explanation'', get_explanation label)]"
    by (auto simp: analyze_def analyze_try_def image_to_base64_def)
  show "complete_success (analyze T cv P g req)" by (simp add: r complete_success_def)
  show "map_of (analyze T cv P g req) ''prediction'' = Some (JStr label)" by (simp add: r)
  show "map_of (analyze T cv P g req) ''confidence'' = Some (JNum conf)" by (simp add: r)
  show "map_of (analyze T cv P g req) ''probabilities'' = Some (JList (map JNum probs))"
    by (simp add: r)
  show "map_of (analyze T cv P g req) ''marked_image'' = Some (JStr b64')" by (simp add: r)
qed (auto simp: analyze_def analyze_try_def failure_def)

theorem analyze_all_or_nothing_witness:
  "analyze sample_torch sample_cv2 sample_pil initial_globals sample_request
     = failure ''Model not loaded. Please ensure trained_ecg_model.pth is available.''
   \<and> analyze sample_torch sample_cv2 sample_pil loaded_globals \<lparr>files = []\<rparr>
     = failure ''No file uploaded''
   \<and> analyze sample_torch sample_cv2 sample_pil loaded_globals \<lparr>files = [(''file'', [])]\<rparr>
     = failure ''cannot identify image file''
   \<and> analyze broken_torch sample_cv2 sample_pil loaded_globals sample_request
     = failure ''CUDA out of memory''
   \<and> analyze sample_torch sample_cv2 (sample_pil\<lparr>decode_RGB := (\<lambda>bytes. Inr empty_image)\<rparr>)
       loaded_globals sample_request
     = failure ''(-215:Assertion failed) !_src.empty() in function cvtColor''
   \<and> complete_success (analyze sample_torch sample_cv2 sample_pil loaded_globals sample_request)
   \<and> map_of (analyze sample_torch sample_cv2 sample_pil loaded_globals sample_request)
       ''prediction''
     = Some (JStr ''Normal_ECG'')"
proof -
  have g: "MODEL loaded_globals \<noteq> None" by (simp add: loaded_globals_def)
  have f: "map_of (files sample_request) ''file'' = Some [255, 216, 255]"
    by (simp add: sample_request_def)
  have d: "decode_RGB sample_pil [255, 216, 255] = Inr sample_image"
    by (simp add: sample_pil_def)
  have j: "\<And>im. jpeg_base64 sample_pil im = Inr ''/9j/4AAQ''"
    by (simp add: sample_pil_def)
  have c: "analyze_ecg_image sample_torch loaded_globals empty_image
     = Inr (''Normal_ECG'', 2 / 5, [1 / 5, 1 / 5, 2 / 5, 1 / 5])"
    by (simp add: analyze_ecg_image_def sample_torch_def loaded_globals_def real_softmax_def
          Let_def class_indices)
  have m: "mark_ecg_image sample_cv2 [empty_image] 0 ''Normal_ECG''
     = (Inl (CvError ''(-215:Assertion failed) !_src.empty() in function cvtColor''),
        [empty_image, empty_image])"
    by (simp add: mark_ecg_image_empty empty_image_def)
  note t = analyze_all_or_nothing
  from t [where g = initial_globals and T = sample_torch and cv = sample_cv2 and P = sample_pil
            and req = sample_request]
  have 1: "analyze sample_torch sample_cv2 sample_pil initial_globals sample_request
     = failure ''Model not loaded. Please ensure trained_ecg_model.pth is available.''"
    by (simp add: initial_globals_def)
  from t [where g = loaded_globals and T = sample_torch and cv = sample_cv2 and P = sample_pil
            and req = "\<lparr>files = []\<rparr>"] g
  have 2: "analyze sample_torch sample_cv2 sample_pil loaded_globals \<lparr>files = []\<rparr>
     = failure ''No file uploaded''"
    by simp
  from t [where g = loaded_globals and T = sample_torch and cv = sample_cv2 and P = sample_pil
            and req = "\<lparr>files = [(''file'', [])]\<rparr>" and bytes = "[]"
            and e = "UnidentifiedImageError ''cannot identify image file''"] g
  have 3: "analyze sample_torch sample_cv2 sample_pil loaded_globals \<lparr>files = [(''file'', [])]\<rparr>
     = failure ''cannot identify image file''"
    by (simp add: sample_pil_def)
  from t [where g = loaded_globals and T = broken_torch and cv = sample_cv2 and P = sample_pil
            and req = sample_request and bytes = "[255, 216, 255]" and img = sample_image
            and e = "RuntimeError ''CUDA out of memory''"] g f d classify_broken
  have 4: "analyze broken_torch sample_cv2 sample_pil loaded_globals sample_request
     = failure ''CUDA out of memory''"
    by simp
  from t [where g = loaded_globals and T = sample_torch and cv = sample_cv2
            and P = "sample_pil\<lparr>decode_RGB := (\<lambda>bytes. Inr empty_image)\<rparr>"
            and req = sample_request and bytes = "[255, 216, 255]" and img = empty_image
            and label = "''Normal_ECG''" and conf = "2 / 5"
            and probs = "[1 / 5, 1 / 5, 2 / 5, 1 / 5]"
            and e = "CvError ''(-215:Assertion failed) !_src.empty() in function cvtColor''"
            and hp = "[empty_image, empty_image]"] g f c m
  have 5: "analyze sample_torch sample_cv2 (sample_pil\<lparr>decode_RGB := (\<lambda>bytes. Inr empty_image)\<rparr>)
       loaded_globals sample_request
     = failure ''(-215:Assertion failed) !_src.empty() in function cvtColor''"
    by simp
  from t [where g = loaded_globals and T = sample_torch and cv = sample_cv2 and P = sample_pil
            and req = sample_request and bytes = "[255, 216, 255]" and img = sample_image
            and label = "''Normal_ECG''" and conf = "2 / 5"
            and probs = "[1 / 5, 1 / 5, 2 / 5, 1 / 5]" and marked = 1
            and hp = "[sample_image, [[(0, 255, 0), (40, 50, 60)]]]"
            and ?b64.0 = "''/9j/4AAQ''" and b64' = "''/9j/4AAQ''"] g f d j classify_sample
    mark_sample
  have 6: "complete_success
             (analyze sample_torch sample_cv2 sample_pil loaded_globals sample_request)
   \<and> map_of (analyze sample_torch sample_cv2 sample_pil loaded_globals sample_request)
       ''prediction''
     = Some (JStr ''Normal_ECG'')"
    by simp
  from 1 2 3 4 5 6 show ?thesis by simp
qed

end
